theory Spec2Isabelle
  imports Main "HOL-Library.AList"
begin

section \<open>The mutation resolvers of \<^verbatim>\<open>src/resolvers/Mutation.js\<close>\<close>

text \<open>
  Every resolver of the source is a function \<^verbatim>\<open>(parent, args, ctx, info)\<close> that talks
  to a database client \<^verbatim>\<open>ctx.db\<close>, reads the caller from \<^verbatim>\<open>ctx.request.userId\<close> and
  sets cookies on \<^verbatim>\<open>ctx.response\<close>. Here a resolver takes its arguments and the
  context and returns its result together with the context afterwards; a thrown
  \<^verbatim>\<open>Error\<close> is the left summand of the result, and the context is returned in
  that case as well, because what was written before the throw stays written.
  The arguments \<^verbatim>\<open>parent\<close> and \<^verbatim>\<open>info\<close> (the selection set) play no part in what
  the resolvers decide and are left out: the database returns whole rows.

  The database client, the mail transport, \<^verbatim>\<open>bcryptjs\<close>, \<^verbatim>\<open>jsonwebtoken\<close> and
  \<^verbatim>\<open>crypto\<close> are collaborators of the resolvers. The database is a store of three
  tables held in memory, the mail transport a list of the messages handed to it. A
  call to a collaborator fails only where the store decides it (no row for a
  \<^verbatim>\<open>where\<close>, an email already taken); a network that is down is not part of the
  model. \<^verbatim>\<open>createItem\<close> is not embedded: none of the properties below concerns it.
\<close>

subsection \<open>Values, rows and errors\<close>

text \<open>Scalar argument values, and objects as lists of properties in insertion order.\<close>

datatype jsval = JNull | JBool bool | JNum int | JStr string

type_synonym obj = "(string \<times> jsval) list"

text \<open>
  A User row: the fields the resolvers read and write, and in \<open>u_rest\<close> whatever else
  the signup arguments carried. An Item row is an object with an \<^verbatim>\<open>id\<close> property;
  a CartItem row links a user id and an item id.
\<close>

record user =
  u_id :: string
  u_email :: string
  u_password :: string
  u_permissions :: "string list"
  u_resetToken :: "string option"
  u_resetTokenExpiry :: "int option"
  u_rest :: obj

record cartItem =
  c_id :: string
  c_quantity :: int
  c_user :: string
  c_item :: string

text \<open>
  \<open>Error m\<close> is \<^verbatim>\<open>new Error(m)\<close> thrown by a resolver. \<open>PermissionDenied\<close> is what
  \<^verbatim>\<open>hasPermission\<close> throws. The other three are raised by the database client: a
  \<^verbatim>\<open>where\<close> that selects no row in an update, delete or connect, a \<^verbatim>\<open>where\<close>
  without a value, and a second row with the same unique email.
\<close>

datatype error =
    Error string
  | PermissionDenied
  | NoNodeFound
  | InvalidWhere
  | UniqueConstraint

subsection \<open>The database client\<close>

text \<open>
  The inputs of the calls the resolvers make. In a \<open>userUpdateInput\<close> a field is
  \<open>None\<close> when the \<^verbatim>\<open>data\<close> object does not mention it; \<open>Some None\<close> writes
  \<^verbatim>\<open>null\<close>.
\<close>

datatype userWhere = ById string | ByEmail string

record userCreateInput =
  ci_email :: string
  ci_password :: string
  ci_permissions :: "string list"
  ci_rest :: obj

record userUpdateInput =
  set_password :: "string option"
  set_permissions :: "string list option"
  set_resetToken :: "string option option"
  set_resetTokenExpiry :: "int option option"

datatype dbcall =
    Query_item jsval
  | Query_user userWhere
  | Query_users string int
  | Query_cartItems string string
  | Query_cartItem string
  | Mutation_createUser userCreateInput
  | Mutation_updateUser userWhere userUpdateInput
  | Mutation_updateItem "jsval option" obj
  | Mutation_deleteItem jsval
  | Mutation_updateCartItem string int
  | Mutation_createCartItem string string
  | Mutation_deleteCartItem string

text \<open>
  The store is three tables, each a list of rows in creation order, and \<open>calls\<close>,
  the operations issued so far. A query for one row returns the first row that
  matches, or nothing; an update or delete changes the first row that matches and
  fails when there is none. Creating a user fails when the email is taken, creating
  a CartItem fails when the user or the Item it connects to is missing.
\<close>

record database =
  users :: "user list"
  items :: "obj list"
  cartItems :: "cartItem list"
  calls :: "dbcall list"

definition logCall :: "dbcall \<Rightarrow> database \<Rightarrow> database" where
  "logCall c d = d\<lparr>calls := calls d @ [c]\<rparr>"

fun updateFirst :: "('a \<Rightarrow> bool) \<Rightarrow> ('a \<Rightarrow> 'a) \<Rightarrow> 'a list \<Rightarrow> 'a list" where
  "updateFirst P f [] = []"
| "updateFirst P f (x # xs) = (if P x then f x # xs else x # updateFirst P f xs)"

fun removeFirst :: "('a \<Rightarrow> bool) \<Rightarrow> 'a list \<Rightarrow> 'a list" where
  "removeFirst P [] = []"
| "removeFirst P (x # xs) = (if P x then xs else x # removeFirst P xs)"

definition hasId :: "jsval \<Rightarrow> obj \<Rightarrow> bool" where
  "hasId w r = (map_of r ''id'' = Some w)"

definition matchUser :: "userWhere \<Rightarrow> user \<Rightarrow> bool" where
  "matchUser w u = (case w of ById i \<Rightarrow> u_id u = i | ByEmail e \<Rightarrow> u_email u = e)"

definition applyUserUpdate :: "userUpdateInput \<Rightarrow> user \<Rightarrow> user" where
  "applyUserUpdate d u =
     u\<lparr>u_password := (case set_password d of None \<Rightarrow> u_password u | Some p \<Rightarrow> p),
       u_permissions := (case set_permissions d of None \<Rightarrow> u_permissions u | Some ps \<Rightarrow> ps),
       u_resetToken := (case set_resetToken d of None \<Rightarrow> u_resetToken u | Some t \<Rightarrow> t),
       u_resetTokenExpiry :=
         (case set_resetTokenExpiry d of None \<Rightarrow> u_resetTokenExpiry u | Some e \<Rightarrow> e)\<rparr>"

text \<open>\<^verbatim>\<open>resetToken: t, resetTokenExpiry_gte: m\<close>: a row without an expiry does not match.\<close>

definition tokenMatches :: "string \<Rightarrow> int \<Rightarrow> user \<Rightarrow> bool" where
  "tokenMatches t m u =
     (u_resetToken u = Some t \<and>
      (case u_resetTokenExpiry u of None \<Rightarrow> False | Some e \<Rightarrow> m \<le> e))"

definition inCart :: "string \<Rightarrow> string \<Rightarrow> cartItem \<Rightarrow> bool" where
  "inCart uid iid c = (c_user c = uid \<and> c_item c = iid)"

text \<open>
  The default of \<^verbatim>\<open>CartItem.quantity\<close>.
  Modelled from the spec: the datamodel that declares the default is not under
  \<^verbatim>\<open>src/\<close>; the spec says a created CartItem takes the backing store's default,
  commonly 1.
\<close>

definition defaultQuantity :: int where
  "defaultQuantity = 1"

definition db_query_item :: "jsval \<Rightarrow> database \<Rightarrow> obj option \<times> database" where
  "db_query_item w d = (find (hasId w) (items d), logCall (Query_item w) d)"

definition db_query_user :: "userWhere \<Rightarrow> database \<Rightarrow> user option \<times> database" where
  "db_query_user w d = (find (matchUser w) (users d), logCall (Query_user w) d)"

definition db_query_users :: "string \<Rightarrow> int \<Rightarrow> database \<Rightarrow> user list \<times> database" where
  "db_query_users t m d = (filter (tokenMatches t m) (users d), logCall (Query_users t m) d)"

definition db_query_cartItems ::
  "string \<Rightarrow> string \<Rightarrow> database \<Rightarrow> cartItem list \<times> database" where
  "db_query_cartItems uid iid d =
     (filter (inCart uid iid) (cartItems d), logCall (Query_cartItems uid iid) d)"

definition db_query_cartItem :: "string \<Rightarrow> database \<Rightarrow> cartItem option \<times> database" where
  "db_query_cartItem cid d =
     (find (\<lambda>c. c_id c = cid) (cartItems d), logCall (Query_cartItem cid) d)"

definition db_mutation_createUser ::
  "string \<Rightarrow> userCreateInput \<Rightarrow> database \<Rightarrow> (error + user) \<times> database" where
  "db_mutation_createUser newid i d =
     (let d' = logCall (Mutation_createUser i) d in
      if ci_email i \<in> set (map u_email (users d)) then (Inl UniqueConstraint, d')
      else
        let u = \<lparr>u_id = newid, u_email = ci_email i, u_password = ci_password i,
                 u_permissions = ci_permissions i, u_resetToken = None,
                 u_resetTokenExpiry = None, u_rest = ci_rest i\<rparr>
        in (Inr u, d'\<lparr>users := users d @ [u]\<rparr>))"

definition db_mutation_updateUser ::
  "userWhere \<Rightarrow> userUpdateInput \<Rightarrow> database \<Rightarrow> (error + user) \<times> database" where
  "db_mutation_updateUser w i d =
     (let d' = logCall (Mutation_updateUser w i) d in
      case find (matchUser w) (users d) of
        None \<Rightarrow> (Inl NoNodeFound, d')
      | Some u \<Rightarrow>
          (Inr (applyUserUpdate i u),
           d'\<lparr>users := updateFirst (matchUser w) (applyUserUpdate i) (users d)\<rparr>))"

definition db_mutation_updateItem ::
  "jsval option \<Rightarrow> obj \<Rightarrow> database \<Rightarrow> (error + obj) \<times> database" where
  "db_mutation_updateItem w dat d =
     (let d' = logCall (Mutation_updateItem w dat) d in
      case w of
        None \<Rightarrow> (Inl InvalidWhere, d')
      | Some v \<Rightarrow>
          (case find (hasId v) (items d) of
             None \<Rightarrow> (Inl NoNodeFound, d')
           | Some r \<Rightarrow>
               (Inr (AList.merge r dat),
                d'\<lparr>items := updateFirst (hasId v) (\<lambda>r. AList.merge r dat) (items d)\<rparr>)))"

definition db_mutation_deleteItem :: "jsval \<Rightarrow> database \<Rightarrow> (error + obj) \<times> database" where
  "db_mutation_deleteItem w d =
     (let d' = logCall (Mutation_deleteItem w) d in
      case find (hasId w) (items d) of
        None \<Rightarrow> (Inl NoNodeFound, d')
      | Some r \<Rightarrow> (Inr r, d'\<lparr>items := removeFirst (hasId w) (items d)\<rparr>))"

definition db_mutation_updateCartItem ::
  "string \<Rightarrow> int \<Rightarrow> database \<Rightarrow> (error + cartItem) \<times> database" where
  "db_mutation_updateCartItem cid q d =
     (let d' = logCall (Mutation_updateCartItem cid q) d in
      case find (\<lambda>c. c_id c = cid) (cartItems d) of
        None \<Rightarrow> (Inl NoNodeFound, d')
      | Some c \<Rightarrow>
          (Inr (c\<lparr>c_quantity := q\<rparr>),
           d'\<lparr>cartItems :=
                updateFirst (\<lambda>c. c_id c = cid) (\<lambda>c. c\<lparr>c_quantity := q\<rparr>) (cartItems d)\<rparr>))"

definition db_mutation_createCartItem ::
  "string \<Rightarrow> string \<Rightarrow> string \<Rightarrow> database \<Rightarrow> (error + cartItem) \<times> database" where
  "db_mutation_createCartItem newid uid iid d =
     (let d' = logCall (Mutation_createCartItem uid iid) d in
      if uid \<notin> set (map u_id (users d)) \<or> find (hasId (JStr iid)) (items d) = None
      then (Inl NoNodeFound, d')
      else
        let c = \<lparr>c_id = newid, c_quantity = defaultQuantity, c_user = uid, c_item = iid\<rparr>
        in (Inr c, d'\<lparr>cartItems := cartItems d @ [c]\<rparr>))"

definition db_mutation_deleteCartItem ::
  "string \<Rightarrow> database \<Rightarrow> (error + cartItem) \<times> database" where
  "db_mutation_deleteCartItem cid d =
     (let d' = logCall (Mutation_deleteCartItem cid) d in
      case find (\<lambda>c. c_id c = cid) (cartItems d) of
        None \<Rightarrow> (Inl NoNodeFound, d')
      | Some c \<Rightarrow> (Inr c, d'\<lparr>cartItems := removeFirst (\<lambda>c. c_id c = cid) (cartItems d)\<rparr>))"

subsection \<open>What the resolvers take from outside\<close>

text \<open>
  The clock (\<^verbatim>\<open>Date.now()\<close>, in milliseconds), the bytes \<^verbatim>\<open>crypto.randomBytes\<close>
  delivers, the id the database gives the row it creates, \<^verbatim>\<open>bcrypt.hash\<close> and
  \<^verbatim>\<open>bcrypt.compare\<close>, the two environment variables, and \<^verbatim>\<open>makeANiceEmail\<close> of
  \<^verbatim>\<open>../mail\<close>. They are parameters: nothing below depends on what they compute.
\<close>

record env =
  now :: int
  randomBytes :: "nat \<Rightarrow> string"
  newId :: string
  bcrypt_hash :: "string \<Rightarrow> nat \<Rightarrow> string"
  bcrypt_compare :: "string \<Rightarrow> string \<Rightarrow> bool"
  APP_SECRET :: string
  FRONTEND_URL :: string
  makeANiceEmail :: "string \<Rightarrow> string"

text \<open>\<^verbatim>\<open>jwt.sign({ userId }, secret)\<close>: the token, as the payload and the key that signed it.\<close>

datatype jwt = Signed (payload_userId: string) (signing_secret: string)

definition jwt_sign :: "string \<Rightarrow> string \<Rightarrow> jwt" where
  "jwt_sign uid secret = Signed uid secret"

datatype cookieOp =
    SetCookie (cookie_name: string) (cookie_value: jwt) (httpOnly: bool) (maxAge: int)
  | ClearCookie string

record mail =
  mail_from :: string
  mail_to :: string
  mail_subject :: string
  mail_html :: string

datatype message = Message string

record ctx =
  request_userId :: "string option"
  db :: database
  response :: "cookieOp list"
  sentMail :: "mail list"

text \<open>\<^verbatim>\<open>String.prototype.toLowerCase\<close> on the ASCII letters.\<close>

definition toLowerCase :: "string \<Rightarrow> string" where
  "toLowerCase s =
     map (\<lambda>c. let n = (of_char c :: nat) in if 65 \<le> n \<and> n \<le> 90 then char_of (n + 32) else c) s"

text \<open>\<^verbatim>\<open>Buffer.toString("hex")\<close>: two lower-case hexadecimal digits for each byte.\<close>

definition hexDigit :: "nat \<Rightarrow> char" where
  "hexDigit n = ''0123456789abcdef'' ! (n mod 16)"

definition toHex :: "string \<Rightarrow> string" where
  "toHex bs = concat (map (\<lambda>c. [hexDigit (of_char c div 16), hexDigit (of_char c)]) bs)"

definition sessionCookie :: "env \<Rightarrow> string \<Rightarrow> cookieOp" where
  "sessionCookie env uid =
     SetCookie ''token'' (jwt_sign uid (APP_SECRET env)) True (1000 * 60 * 60 * 24 * 365)"

text \<open>
  The permission check of \<^verbatim>\<open>../utils\<close>; \<open>None\<close> is a normal return.
  Modelled from the spec: \<^verbatim>\<open>hasPermission\<close> is imported from \<^verbatim>\<open>../utils\<close>, which is
  not under \<^verbatim>\<open>src/\<close>. The spec says of its one call: "Requires the caller to hold
  ADMIN AND PERMISSIONUPDATE capability (conjunctive check); fails with
  PermissionDenied otherwise." A caller whose User row was not found holds nothing.
\<close>

definition hasPermission :: "user option \<Rightarrow> string list \<Rightarrow> error option" where
  "hasPermission u needed =
     (case u of
        None \<Rightarrow> Some PermissionDenied
      | Some usr \<Rightarrow>
          if list_all (\<lambda>p. p \<in> set (u_permissions usr)) needed then None
          else Some PermissionDenied)"

subsection \<open>The resolvers\<close>

record signupArgs =
  sa_email :: string
  sa_password :: string
  sa_rest :: obj

record idArgs =
  a_id :: string

record emailArgs =
  a_email :: string

record resetPasswordArgs =
  rp_resetToken :: string
  rp_password :: string
  rp_confirmPassword :: string

record updatePermissionsArgs =
  up_userId :: string
  up_permissions :: "string list"

text \<open>\<^verbatim>\<open>updateItem\<close>: \<^verbatim>\<open>const updates = { ...args }; delete updates.id;\<close>\<close>

definition updateItem :: "obj \<Rightarrow> ctx \<Rightarrow> (error + obj) \<times> ctx" where
  "updateItem args ctx =
     (let updates = AList.delete ''id'' args;
          (r, d) = db_mutation_updateItem (map_of args ''id'') updates (db ctx)
      in (r, ctx\<lparr>db := d\<rparr>))"

definition deleteItem :: "idArgs \<Rightarrow> ctx \<Rightarrow> (error + obj) \<times> ctx" where
  "deleteItem args ctx =
     (let whre = JStr (a_id args);
          (item, d1) = db_query_item whre (db ctx);
          (r, d2) = db_mutation_deleteItem whre d1
      in (r, ctx\<lparr>db := d2\<rparr>))"

text \<open>
  \<^verbatim>\<open>signup\<close>: the value of \<^verbatim>\<open>args.email.toLowerCase()\<close> is computed and dropped;
  \<^verbatim>\<open>{ ...args, password, permissions: { set: ["USER"] } }\<close> is the create input.
\<close>

definition signup :: "env \<Rightarrow> signupArgs \<Rightarrow> ctx \<Rightarrow> (error + user) \<times> ctx" where
  "signup env args ctx =
     (let lowered = toLowerCase (sa_email args);
          password = bcrypt_hash env (sa_password args) 10;
          (r, d) = db_mutation_createUser (newId env)
                     \<lparr>ci_email = sa_email args, ci_password = password,
                      ci_permissions = [''USER''], ci_rest = sa_rest args\<rparr> (db ctx)
      in case r of
           Inl e \<Rightarrow> (Inl e, ctx\<lparr>db := d\<rparr>)
         | Inr usr \<Rightarrow>
             (Inr usr,
              ctx\<lparr>db := d, response := response ctx @ [sessionCookie env (u_id usr)]\<rparr>))"

definition signin :: "env \<Rightarrow> string \<Rightarrow> string \<Rightarrow> ctx \<Rightarrow> (error + user) \<times> ctx" where
  "signin env email password ctx =
     (let (found, d) = db_query_user (ByEmail email) (db ctx) in
      case found of
        None \<Rightarrow> (Inl (Error (''No such user found for email '' @ email)), ctx\<lparr>db := d\<rparr>)
      | Some usr \<Rightarrow>
          if \<not> bcrypt_compare env password (u_password usr)
          then (Inl (Error ''Invalid Password!''), ctx\<lparr>db := d\<rparr>)
          else (Inr usr,
                ctx\<lparr>db := d, response := response ctx @ [sessionCookie env (u_id usr)]\<rparr>))"

definition signout :: "ctx \<Rightarrow> message \<times> ctx" where
  "signout ctx = (Message ''Goodbye!'', ctx\<lparr>response := response ctx @ [ClearCookie ''token'']\<rparr>)"

definition resetMailText :: "string \<Rightarrow> string \<Rightarrow> string" where
  "resetMailText frontend resetToken =
     ''Your Password Reset Token is here! '' @ [CHR 0x0A, CHR 0x0A] @ '' '' @ [CHR 0x0A] @
     replicate 4 (CHR 0x09) @ ''<a href='' @ [CHR 0x22] @ frontend @ ''/reset?resetToken='' @
     resetToken @ [CHR 0x22] @ ''>Click Here to Reset</a>'' @ [CHR 0x0A] @ replicate 4 (CHR 0x09)"

definition requestReset :: "env \<Rightarrow> emailArgs \<Rightarrow> ctx \<Rightarrow> (error + message) \<times> ctx" where
  "requestReset env args ctx =
     (let (found, d1) = db_query_user (ByEmail (a_email args)) (db ctx) in
      case found of
        None \<Rightarrow>
          (Inl (Error (''No such user found for email '' @ a_email args)), ctx\<lparr>db := d1\<rparr>)
      | Some usr \<Rightarrow>
          (let resetToken = toHex (randomBytes env 20);
              resetTokenExpiry = now env + 3600000;
              (res, d2) = db_mutation_updateUser (ByEmail (a_email args))
                            \<lparr>set_password = None, set_permissions = None,
                             set_resetToken = Some (Some resetToken),
                             set_resetTokenExpiry = Some (Some resetTokenExpiry)\<rparr> d1
           in (case res of
               Inl e \<Rightarrow> (Inl e, ctx\<lparr>db := d2\<rparr>)
             | Inr _ \<Rightarrow>
                 (Inr (Message ''Thank you!''),
                  ctx\<lparr>db := d2,
                      sentMail := sentMail ctx @
                        [\<lparr>mail_from = ''jose@gmail.com'', mail_to = u_email usr,
                          mail_subject = ''Your Password Reset'',
                          mail_html = makeANiceEmail env
                            (resetMailText (FRONTEND_URL env) resetToken)\<rparr>]\<rparr>))))"

definition resetPassword :: "env \<Rightarrow> resetPasswordArgs \<Rightarrow> ctx \<Rightarrow> (error + user) \<times> ctx" where
  "resetPassword env args ctx =
     (if rp_password args \<noteq> rp_confirmPassword args
      then (Inl (Error (''Your passwords don'' @ [CHR 0x27] @ ''t match'')), ctx)
      else
        let (matching, d1) = db_query_users (rp_resetToken args) (now env - 3600000) (db ctx) in
        case matching of
          [] \<Rightarrow> (Inl (Error ''This token is either invalid or expired!''), ctx\<lparr>db := d1\<rparr>)
        | usr # _ \<Rightarrow>
            (let password = bcrypt_hash env (rp_password args) 10;
                (res, d2) = db_mutation_updateUser (ByEmail (u_email usr))
                              \<lparr>set_password = Some password, set_permissions = None,
                               set_resetToken = Some None,
                               set_resetTokenExpiry = Some None\<rparr> d1
             in (case res of
                 Inl e \<Rightarrow> (Inl e, ctx\<lparr>db := d2\<rparr>)
               | Inr updatedUser \<Rightarrow>
                   (Inr updatedUser,
                    ctx\<lparr>db := d2,
                        response := response ctx @ [sessionCookie env (u_id updatedUser)]\<rparr>))))"

definition updatePermissions ::
  "updatePermissionsArgs \<Rightarrow> ctx \<Rightarrow> (error + user) \<times> ctx" where
  "updatePermissions args ctx =
     (case request_userId ctx of
        None \<Rightarrow> (Inl (Error ''You must be logged in!''), ctx)
      | Some uid \<Rightarrow>
          if uid = [] then (Inl (Error ''You must be logged in!''), ctx)
          else
            (let (currentUser, d1) = db_query_user (ById uid) (db ctx) in
             case hasPermission currentUser [''ADMIN'', ''PERMISSIONUPDATE''] of
               Some e \<Rightarrow> (Inl e, ctx\<lparr>db := d1\<rparr>)
             | None \<Rightarrow>
                (let (r, d2) = db_mutation_updateUser (ById (up_userId args))
                                \<lparr>set_password = None,
                                 set_permissions = Some (up_permissions args),
                                 set_resetToken = None, set_resetTokenExpiry = None\<rparr> d1
                 in (r, ctx\<lparr>db := d2\<rparr>))))"

definition addToCart :: "env \<Rightarrow> idArgs \<Rightarrow> ctx \<Rightarrow> (error + cartItem) \<times> ctx" where
  "addToCart env args ctx =
     (case request_userId ctx of
        None \<Rightarrow> (Inl (Error ''You must be signed in to add items!''), ctx)
      | Some userId \<Rightarrow>
          if userId = [] then (Inl (Error ''You must be signed in to add items!''), ctx)
          else
            (let (existing, d1) = db_query_cartItems userId (a_id args) (db ctx) in
             case existing of
               existingCartItem # _ \<Rightarrow>
                 (let (r, d2) = db_mutation_updateCartItem (c_id existingCartItem)
                                  (c_quantity existingCartItem + 1) d1
                  in (r, ctx\<lparr>db := d2\<rparr>))
             | [] \<Rightarrow>
                 (let (r, d2) = db_mutation_createCartItem (newId env) userId (a_id args) d1
                  in (r, ctx\<lparr>db := d2\<rparr>))))"

definition removeFromCart :: "idArgs \<Rightarrow> ctx \<Rightarrow> (error + cartItem) \<times> ctx" where
  "removeFromCart args ctx =
     (let (found, d1) = db_query_cartItem (a_id args) (db ctx) in
      case found of
        None \<Rightarrow> (Inl (Error ''No Cart Item Found!''), ctx\<lparr>db := d1\<rparr>)
      | Some cartItem \<Rightarrow>
          if Some (c_user cartItem) \<noteq> request_userId ctx
          then (Inl (Error ''Cheating :)''), ctx\<lparr>db := d1\<rparr>)
          else
            let (r, d2) = db_mutation_deleteCartItem (a_id args) d1
            in (r, ctx\<lparr>db := d2\<rparr>))"

subsection \<open>Vocabulary of the properties\<close>

text \<open>The caller of the request owns the CartItem with this id.\<close>

definition ownsCartItem :: "ctx \<Rightarrow> string \<Rightarrow> bool" where
  "ownsCartItem ctx cid =
     (case find (\<lambda>c. c_id c = cid) (cartItems (db ctx)) of
        None \<Rightarrow> False
      | Some c \<Rightarrow> Some (c_user c) = request_userId ctx)"

text \<open>The caller of the request has a User row, and the row lists the permission.\<close>

definition callerHolds :: "ctx \<Rightarrow> string \<Rightarrow> bool" where
  "callerHolds ctx p =
     (case request_userId ctx of
        None \<Rightarrow> False
      | Some uid \<Rightarrow>
          (case find (matchUser (ById uid)) (users (db ctx)) of
             None \<Rightarrow> False
           | Some u \<Rightarrow> p \<in> set (u_permissions u)))"

subsection \<open>A small shop\<close>

text \<open>
  Three users, one item and one cart line, on which the theorems below are run. The
  buyer holds a reset token whose stored expiry (9000000) is already behind the clock
  (10000000), by less than an hour.
\<close>

definition exampleEnv :: env where
  "exampleEnv =
     \<lparr>now = 10000000, randomBytes = (\<lambda>n. replicate n (CHR 0xAB)), newId = ''n1'',
      bcrypt_hash = (\<lambda>p c. ''hash:'' @ p), bcrypt_compare = (\<lambda>p h. h = ''hash:'' @ p),
      APP_SECRET = ''secret'', FRONTEND_URL = ''http://localhost:7777'',
      makeANiceEmail = (\<lambda>t. t)\<rparr>"

definition exampleAdmin :: user where
  "exampleAdmin =
     \<lparr>u_id = ''u1'', u_email = ''admin@shop.test'', u_password = ''hash:root'',
      u_permissions = [''USER'', ''ADMIN'', ''PERMISSIONUPDATE''], u_resetToken = None,
      u_resetTokenExpiry = None, u_rest = []\<rparr>"

definition exampleHalf :: user where
  "exampleHalf =
     \<lparr>u_id = ''u2'', u_email = ''half@shop.test'', u_password = ''hash:half'',
      u_permissions = [''USER'', ''ADMIN''], u_resetToken = None,
      u_resetTokenExpiry = None, u_rest = []\<rparr>"

definition exampleBuyer :: user where
  "exampleBuyer =
     \<lparr>u_id = ''u3'', u_email = ''buyer@shop.test'', u_password = ''hash:buy'',
      u_permissions = [''USER''], u_resetToken = Some ''cafe'',
      u_resetTokenExpiry = Some 9000000, u_rest = []\<rparr>"

definition exampleDb :: database where
  "exampleDb =
     \<lparr>users = [exampleAdmin, exampleHalf, exampleBuyer],
      items = [[(''id'', JStr ''i1''), (''title'', JStr ''Shoes''), (''price'', JNum 5000)]],
      cartItems = [\<lparr>c_id = ''c1'', c_quantity = 1, c_user = ''u3'', c_item = ''i1''\<rparr>],
      calls = []\<rparr>"

definition exampleCtx :: "string option \<Rightarrow> ctx" where
  "exampleCtx who = \<lparr>request_userId = who, db = exampleDb, response = [], sentMail = []\<rparr>"

lemmas example_defs =
  exampleEnv_def exampleAdmin_def exampleHalf_def exampleBuyer_def exampleDb_def exampleCtx_def

section \<open>Auxiliary facts about the store\<close>

lemma find_updateFirst_same:
  "find P xs = Some x \<Longrightarrow> P (f x) \<Longrightarrow> find P (updateFirst P f xs) = Some (f x)"
  by (induction xs) (auto split: if_splits)

lemma find_updateFirst_other:
  "find P xs = Some x \<Longrightarrow> Q (f x) \<Longrightarrow> (\<forall>y\<in>set xs. \<not> P y \<longrightarrow> \<not> Q y)
     \<Longrightarrow> find Q (updateFirst P f xs) = Some (f x)"
  by (induction xs) (auto split: if_splits)

lemma updateFirst_snoc:
  "(\<forall>y\<in>set xs. \<not> P y) \<Longrightarrow> P x \<Longrightarrow> updateFirst P f (xs @ [x]) = xs @ [f x]"
  by (induction xs) auto

lemma find_snoc:
  "(\<forall>y\<in>set xs. \<not> P y) \<Longrightarrow> P x \<Longrightarrow> find P (xs @ [x]) = Some x"
  by (induction xs) auto

lemma filter_Cons_find: "filter P xs = x # rest \<Longrightarrow> find P xs = Some x"
  by (induction xs) (auto split: if_splits)

lemma find_Some_filter: "find P xs = Some x \<Longrightarrow> \<exists>rest. filter P xs = x # rest"
  by (induction xs) (auto split: if_splits)

lemma hasId_merge:
  "hasId v r \<Longrightarrow> hasId v (AList.merge r (AList.delete ''id'' args))"
  by (simp add: hasId_def AList.merge_conv' AList.delete_conv' map_add_def)

lemma matchUser_applyUserUpdate: "matchUser w (applyUserUpdate i u) = matchUser w u"
  by (simp add: matchUser_def applyUserUpdate_def split: userWhere.splits)

lemma applyUserUpdate_permissions:
  "applyUserUpdate \<lparr>set_password = None, set_permissions = Some ps, set_resetToken = None,
      set_resetTokenExpiry = None\<rparr> u = u\<lparr>u_permissions := ps\<rparr>"
  by (simp add: applyUserUpdate_def)

lemma tokenMatches_iff:
  "tokenMatches t m u \<longleftrightarrow> u_resetToken u = Some t \<and> (\<exists>e. u_resetTokenExpiry u = Some e \<and> m \<le> e)"
  by (auto simp: tokenMatches_def split: option.splits)

lemma find_email_of_member:
  "u \<in> set xs \<Longrightarrow> \<exists>v. find (matchUser (ByEmail (u_email u))) xs = Some v \<and> u_email v = u_email u"
  by (induction xs) (auto simp: matchUser_def)

section \<open>The claims\<close>

text \<open>
  C1. When \<^verbatim>\<open>ctx.request.userId\<close> is set, \<^verbatim>\<open>updatePermissions\<close> fails with the
  permission error, leaves every User row as it was and issues nothing but the lookup
  of the caller, whenever the caller lacks \<^verbatim>\<open>ADMIN\<close> or lacks \<^verbatim>\<open>PERMISSIONUPDATE\<close>;
  so the rows change only for a caller who holds both. For such a caller the target
  row comes back with its permissions replaced by \<^verbatim>\<open>args.permissions\<close>, and is stored
  so. The check itself is \<open>hasPermission\<close>, modelled from the spec.
\<close>

theorem updatePermissions_needs_both:
  assumes "request_userId ctx = Some uid" and "uid \<noteq> []"
  shows "(\<not> (callerHolds ctx ''ADMIN'' \<and> callerHolds ctx ''PERMISSIONUPDATE'') \<longrightarrow>
            fst (updatePermissions args ctx) = Inl PermissionDenied
            \<and> users (db (snd (updatePermissions args ctx))) = users (db ctx)
            \<and> calls (db (snd (updatePermissions args ctx))) = calls (db ctx) @ [Query_user (ById uid)])
       \<and> (users (db (snd (updatePermissions args ctx))) \<noteq> users (db ctx) \<longrightarrow>
            callerHolds ctx ''ADMIN'' \<and> callerHolds ctx ''PERMISSIONUPDATE'')
       \<and> (callerHolds ctx ''ADMIN'' \<and> callerHolds ctx ''PERMISSIONUPDATE''
            \<and> find (matchUser (ById (up_userId args))) (users (db ctx)) = Some target \<longrightarrow>
            fst (updatePermissions args ctx) = Inr (target\<lparr>u_permissions := up_permissions args\<rparr>)
            \<and> find (matchUser (ById (up_userId args))) (users (db (snd (updatePermissions args ctx))))
                = Some (target\<lparr>u_permissions := up_permissions args\<rparr>))"
proof -
  let ?both = "callerHolds ctx ''ADMIN'' \<and> callerHolds ctx ''PERMISSIONUPDATE''"
  have check: "hasPermission (find (matchUser (ById uid)) (users (db ctx)))
                 [''ADMIN'', ''PERMISSIONUPDATE''] = (if ?both then None else Some PermissionDenied)"
    using assms by (auto simp: hasPermission_def callerHolds_def split: option.splits)
  have denied: "fst (updatePermissions args ctx) = Inl PermissionDenied
            \<and> users (db (snd (updatePermissions args ctx))) = users (db ctx)
            \<and> calls (db (snd (updatePermissions args ctx))) = calls (db ctx) @ [Query_user (ById uid)]"
    if "\<not> ?both"
  proof -
    have "hasPermission (find (matchUser (ById uid)) (users (db ctx)))
            [''ADMIN'', ''PERMISSIONUPDATE''] = Some PermissionDenied"
      using that check by presburger
    then show ?thesis
      using assms by (simp add: updatePermissions_def db_query_user_def logCall_def)
  qed
  have granted: "fst (updatePermissions args ctx) = Inr (target\<lparr>u_permissions := up_permissions args\<rparr>)
            \<and> find (matchUser (ById (up_userId args))) (users (db (snd (updatePermissions args ctx))))
                = Some (target\<lparr>u_permissions := up_permissions args\<rparr>)"
    if b: "?both" and t: "find (matchUser (ById (up_userId args))) (users (db ctx)) = Some target"
  proof -
    have m: "matchUser (ById (up_userId args)) target"
      using t by (auto simp: find_Some_iff)
    let ?i = "\<lparr>set_password = None, set_permissions = Some (up_permissions args),
                set_resetToken = None, set_resetTokenExpiry = None\<rparr>"
    have "find (matchUser (ById (up_userId args)))
            (updateFirst (matchUser (ById (up_userId args))) (applyUserUpdate ?i) (users (db ctx)))
          = Some (applyUserUpdate ?i target)"
      using t m by (intro find_updateFirst_same) (simp_all add: matchUser_applyUserUpdate)
    moreover have "hasPermission (find (matchUser (ById uid)) (users (db ctx)))
            [''ADMIN'', ''PERMISSIONUPDATE''] = None"
      using b check by presburger
    ultimately show ?thesis
      using t assms
      by (simp add: updatePermissions_def db_query_user_def db_mutation_updateUser_def
          logCall_def applyUserUpdate_permissions)
  qed
  show ?thesis using denied granted by blast
qed

theorem updatePermissions_needs_both_witness:
  "request_userId (exampleCtx (Some ''u2'')) = Some ''u2'' \<and> ''u2'' \<noteq> []
   \<and> callerHolds (exampleCtx (Some ''u2'')) ''ADMIN''
   \<and> \<not> callerHolds (exampleCtx (Some ''u2'')) ''PERMISSIONUPDATE''
   \<and> fst (updatePermissions \<lparr>up_userId = ''u3'', up_permissions = [''USER'', ''ITEMCREATE'']\<rparr>
             (exampleCtx (Some ''u2''))) = Inl PermissionDenied
   \<and> users (db (snd (updatePermissions
             \<lparr>up_userId = ''u3'', up_permissions = [''USER'', ''ITEMCREATE'']\<rparr>
             (exampleCtx (Some ''u2''))))) = [exampleAdmin, exampleHalf, exampleBuyer]
   \<and> request_userId (exampleCtx (Some ''u1'')) = Some ''u1'' \<and> ''u1'' \<noteq> []
   \<and> callerHolds (exampleCtx (Some ''u1'')) ''ADMIN''
   \<and> callerHolds (exampleCtx (Some ''u1'')) ''PERMISSIONUPDATE''
   \<and> find (matchUser (ById ''u3'')) (users (db (exampleCtx (Some ''u1'')))) = Some exampleBuyer
   \<and> fst (updatePermissions \<lparr>up_userId = ''u3'', up_permissions = [''USER'', ''ITEMCREATE'']\<rparr>
             (exampleCtx (Some ''u1'')))
       = Inr (exampleBuyer\<lparr>u_permissions := [''USER'', ''ITEMCREATE'']\<rparr>)"
proof -
  let ?args = "\<lparr>up_userId = ''u3'', up_permissions = [''USER'', ''ITEMCREATE'']\<rparr>"
  have half: "request_userId (exampleCtx (Some ''u2'')) = Some ''u2''" "''u2'' \<noteq> []"
    "callerHolds (exampleCtx (Some ''u2'')) ''ADMIN''"
    "\<not> callerHolds (exampleCtx (Some ''u2'')) ''PERMISSIONUPDATE''"
    "users (db (exampleCtx (Some ''u2''))) = [exampleAdmin, exampleHalf, exampleBuyer]"
    by (simp_all add: example_defs callerHolds_def matchUser_def)
  have admin: "request_userId (exampleCtx (Some ''u1'')) = Some ''u1''" "''u1'' \<noteq> []"
    "callerHolds (exampleCtx (Some ''u1'')) ''ADMIN''"
    "callerHolds (exampleCtx (Some ''u1'')) ''PERMISSIONUPDATE''"
    by (simp_all add: example_defs callerHolds_def matchUser_def)
  have target: "find (matchUser (ById (up_userId ?args))) (users (db (exampleCtx (Some ''u1''))))
       = Some exampleBuyer"
    by (simp add: example_defs matchUser_def)
  note denied = updatePermissions_needs_both [OF half(1,2), where args = ?args]
  note granted = updatePermissions_needs_both
    [OF admin(1,2), where args = ?args and target = exampleBuyer]
  from denied half have d: "fst (updatePermissions ?args (exampleCtx (Some ''u2''))) = Inl PermissionDenied"
    "users (db (snd (updatePermissions ?args (exampleCtx (Some ''u2'')))))
       = [exampleAdmin, exampleHalf, exampleBuyer]"
    by simp_all
  from granted admin target
  have g: "fst (updatePermissions ?args (exampleCtx (Some ''u1'')))
       = Inr (exampleBuyer\<lparr>u_permissions := [''USER'', ''ITEMCREATE'']\<rparr>)"
    by simp
  from half admin target d g show ?thesis by simp
qed

text \<open>
  C2. \<^verbatim>\<open>signup\<close> sends to \<^verbatim>\<open>createUser\<close> the email as the caller gave it (the
  lower-cased copy is never used), the password replaced by \<^verbatim>\<open>bcrypt.hash(password, 10)\<close>
  and the permissions \<^verbatim>\<open>["USER"]\<close>; a user it returns is stored with exactly these, and
  it returns one whenever the email is not taken.
\<close>

theorem signup_create_input:
  "calls (db (snd (signup env args ctx))) =
     calls (db ctx) @
       [Mutation_createUser
          \<lparr>ci_email = sa_email args, ci_password = bcrypt_hash env (sa_password args) 10,
           ci_permissions = [''USER''], ci_rest = sa_rest args\<rparr>]
   \<and> (fst (signup env args ctx) = Inr u \<longrightarrow>
        u_email u = sa_email args
        \<and> u_password u = bcrypt_hash env (sa_password args) 10
        \<and> set (u_permissions u) = {''USER''}
        \<and> users (db (snd (signup env args ctx))) = users (db ctx) @ [u])
   \<and> (sa_email args \<notin> set (map u_email (users (db ctx))) \<longrightarrow>
        (\<exists>u. fst (signup env args ctx) = Inr u))"
  by (auto simp: signup_def db_mutation_createUser_def logCall_def Let_def split: if_splits)


theorem signup_create_input_witness:
  "sa_email \<lparr>sa_email = ''Bob@Shop.Test'', sa_password = ''pw'', sa_rest = [(''name'', JStr ''Bob'')]\<rparr>
     \<notin> set (map u_email (users (db (exampleCtx None))))
   \<and> toLowerCase ''Bob@Shop.Test'' = ''bob@shop.test''
   \<and> (\<exists>u. fst (signup exampleEnv
              \<lparr>sa_email = ''Bob@Shop.Test'', sa_password = ''pw'', sa_rest = [(''name'', JStr ''Bob'')]\<rparr>
              (exampleCtx None)) = Inr u
          \<and> u_email u = ''Bob@Shop.Test'' \<and> u_password u = ''hash:pw''
          \<and> set (u_permissions u) = {''USER''})"
proof -
  let ?args = "\<lparr>sa_email = ''Bob@Shop.Test'', sa_password = ''pw'', sa_rest = [(''name'', JStr ''Bob'')]\<rparr>"
  have a: "sa_email ?args \<notin> set (map u_email (users (db (exampleCtx None))))"
    by (simp add: example_defs)
  have l: "toLowerCase ''Bob@Shop.Test'' = ''bob@shop.test''"
    by code_simp
  have h: "bcrypt_hash exampleEnv ''pw'' 10 = ''hash:pw''"
    by (simp add: example_defs)
  from a signup_create_input [of exampleEnv ?args "exampleCtx None"]
  obtain u where u: "fst (signup exampleEnv ?args (exampleCtx None)) = Inr u"
    by blast
  with signup_create_input [of exampleEnv ?args "exampleCtx None" u] h
  have "u_email u = ''Bob@Shop.Test'' \<and> u_password u = ''hash:pw'' \<and> set (u_permissions u) = {''USER''}"
    by simp
  with a l u show ?thesis by blast
qed

text \<open>
  C3. With \<^verbatim>\<open>password\<close> equal to \<^verbatim>\<open>confirmPassword\<close>, \<^verbatim>\<open>resetPassword\<close> fails with
  "This token is either invalid or expired!" exactly when no user has the supplied token
  stored together with an expiry of at least the current time minus one hour; the stored
  expiry is never compared with the current time itself. When some user qualifies, the
  first such user is the one whose password is reset.
\<close>

theorem resetPassword_token_window:
  assumes "rp_password args = rp_confirmPassword args"
  shows "(fst (resetPassword env args ctx) = Inl (Error ''This token is either invalid or expired!''))
           = (\<not> (\<exists>u \<in> set (users (db ctx)).
                    u_resetToken u = Some (rp_resetToken args)
                    \<and> (\<exists>e. u_resetTokenExpiry u = Some e \<and> now env - 3600000 \<le> e)))
       \<and> (find (\<lambda>u. u_resetToken u = Some (rp_resetToken args)
                    \<and> (\<exists>e. u_resetTokenExpiry u = Some e \<and> now env - 3600000 \<le> e))
             (users (db ctx)) = Some usr \<longrightarrow>
            (\<exists>u'. fst (resetPassword env args ctx) = Inr u'
                 \<and> u_email u' = u_email usr
                 \<and> u_password u' = bcrypt_hash env (rp_password args) 10
                 \<and> u_resetToken u' = None \<and> u_resetTokenExpiry u' = None))"
proof -
  let ?t = "rp_resetToken args" and ?m = "now env - 3600000"
  let ?acc = "\<lambda>u. u_resetToken u = Some ?t \<and> (\<exists>e. u_resetTokenExpiry u = Some e \<and> ?m \<le> e)"
  have same: "tokenMatches ?t ?m = ?acc"
    by (rule ext) (rule tokenMatches_iff)
  have none: "fst (resetPassword env args ctx) = Inl (Error ''This token is either invalid or expired!'')"
    if "filter ?acc (users (db ctx)) = []"
    using that assms by (simp add: resetPassword_def db_query_users_def same)
  have some: "\<exists>u'. fst (resetPassword env args ctx) = Inr u'
                 \<and> u_email u' = u_email u
                 \<and> u_password u' = bcrypt_hash env (rp_password args) 10
                 \<and> u_resetToken u' = None \<and> u_resetTokenExpiry u' = None"
    if f: "filter ?acc (users (db ctx)) = u # rest" for u rest
  proof -
    have "u \<in> set (filter ?acc (users (db ctx)))" using f by simp
    then have "u \<in> set (users (db ctx))" by simp
    then obtain v where v: "find (matchUser (ByEmail (u_email u))) (users (db ctx)) = Some v"
        "u_email v = u_email u"
      using find_email_of_member by blast
    then show ?thesis
      using f assms
      by (simp add: resetPassword_def db_query_users_def same db_mutation_updateUser_def
          logCall_def applyUserUpdate_def Let_def)
  qed
  have iff: "(fst (resetPassword env args ctx) = Inl (Error ''This token is either invalid or expired!''))
           = (\<not> (\<exists>u \<in> set (users (db ctx)). ?acc u))"
  proof (cases "filter ?acc (users (db ctx))")
    case Nil
    then show ?thesis using none by (auto simp: filter_empty_conv)
  next
    case (Cons u rest)
    then have "u \<in> set (filter ?acc (users (db ctx)))" by simp
    then have "\<exists>u \<in> set (users (db ctx)). ?acc u" by auto
    then show ?thesis using some [OF Cons] by auto
  qed
  have first: "\<exists>u'. fst (resetPassword env args ctx) = Inr u'
                 \<and> u_email u' = u_email usr
                 \<and> u_password u' = bcrypt_hash env (rp_password args) 10
                 \<and> u_resetToken u' = None \<and> u_resetTokenExpiry u' = None"
    if "find ?acc (users (db ctx)) = Some usr"
    using find_Some_filter [OF that] some by blast
  show ?thesis using iff first by blast
qed

theorem resetPassword_token_window_witness:
  "rp_password \<lparr>rp_resetToken = ''cafe'', rp_password = ''new'', rp_confirmPassword = ''new''\<rparr>
     = rp_confirmPassword \<lparr>rp_resetToken = ''cafe'', rp_password = ''new'', rp_confirmPassword = ''new''\<rparr>
   \<and> u_resetTokenExpiry exampleBuyer = Some 9000000 \<and> 9000000 < now exampleEnv
   \<and> find (\<lambda>u. u_resetToken u = Some ''cafe''
              \<and> (\<exists>e. u_resetTokenExpiry u = Some e \<and> now exampleEnv - 3600000 \<le> e))
        (users (db (exampleCtx None))) = Some exampleBuyer
   \<and> (\<exists>u'. fst (resetPassword exampleEnv
               \<lparr>rp_resetToken = ''cafe'', rp_password = ''new'', rp_confirmPassword = ''new''\<rparr>
               (exampleCtx None)) = Inr u'
          \<and> u_email u' = ''buyer@shop.test'' \<and> u_password u' = ''hash:new''
          \<and> u_resetToken u' = None \<and> u_resetTokenExpiry u' = None)
   \<and> fst (resetPassword (exampleEnv\<lparr>now := 12600001\<rparr>)
            \<lparr>rp_resetToken = ''cafe'', rp_password = ''new'', rp_confirmPassword = ''new''\<rparr>
            (exampleCtx None)) = Inl (Error ''This token is either invalid or expired!'')"
proof -
  let ?args = "\<lparr>rp_resetToken = ''cafe'', rp_password = ''new'', rp_confirmPassword = ''new''\<rparr>"
  let ?late = "exampleEnv\<lparr>now := 12600001\<rparr>"
  have eq: "rp_password ?args = rp_confirmPassword ?args"
    by simp
  have stored: "u_resetTokenExpiry exampleBuyer = Some 9000000" "9000000 < now exampleEnv"
    "u_email exampleBuyer = ''buyer@shop.test''" "bcrypt_hash exampleEnv ''new'' 10 = ''hash:new''"
    by (simp_all add: example_defs)
  have first: "find (\<lambda>u. u_resetToken u = Some (rp_resetToken ?args)
              \<and> (\<exists>e. u_resetTokenExpiry u = Some e \<and> now exampleEnv - 3600000 \<le> e))
        (users (db (exampleCtx None))) = Some exampleBuyer"
    by (simp add: example_defs)
  have nobody: "\<not> (\<exists>u \<in> set (users (db (exampleCtx None))).
                    u_resetToken u = Some (rp_resetToken ?args)
                    \<and> (\<exists>e. u_resetTokenExpiry u = Some e \<and> now ?late - 3600000 \<le> e))"
    by (simp add: example_defs)
  note inTime = resetPassword_token_window
    [OF eq, where env = exampleEnv and ctx = "exampleCtx None" and usr = exampleBuyer]
  note tooLate = resetPassword_token_window
    [OF eq, where env = ?late and ctx = "exampleCtx None" and usr = exampleBuyer]
  from inTime first stored
  have ok: "\<exists>u'. fst (resetPassword exampleEnv ?args (exampleCtx None)) = Inr u'
          \<and> u_email u' = ''buyer@shop.test'' \<and> u_password u' = ''hash:new''
          \<and> u_resetToken u' = None \<and> u_resetTokenExpiry u' = None"
    by simp
  from tooLate nobody
  have ko: "fst (resetPassword ?late ?args (exampleCtx None))
      = Inl (Error ''This token is either invalid or expired!'')"
    by blast
  from eq stored first ok ko show ?thesis by simp
qed

text \<open>
  C4. For a user found by the email, \<^verbatim>\<open>requestReset\<close> answers "Thank you!" and stores
  on that user the hex encoding of 20 random bytes as \<^verbatim>\<open>resetToken\<close> and the current
  time plus 3600000 as \<^verbatim>\<open>resetTokenExpiry\<close>. A \<^verbatim>\<open>resetPassword\<close> that follows with
  this token and equal \<^verbatim>\<open>password\<close> and \<^verbatim>\<open>confirmPassword\<close> succeeds: it returns and
  stores that user with the password replaced by the hash of the new one and with
  \<^verbatim>\<open>resetToken\<close> and \<^verbatim>\<open>resetTokenExpiry\<close> cleared. "Immediately" is any time of the
  second call up to two hours after the first, and the random token is one that no
  user with another email holds.
\<close>

theorem requestReset_then_resetPassword:
  assumes existing: "find (matchUser (ByEmail email)) (users (db ctx)) = Some usr"
    and fresh: "\<forall>u \<in> set (users (db ctx)).
                  u_email u \<noteq> email \<longrightarrow> u_resetToken u \<noteq> Some (toHex (randomBytes env1 20))"
    and soon: "now env2 \<le> now env1 + 7200000"
    and request: "requestReset env1 \<lparr>a_email = email\<rparr> ctx = (r1, ctx1)"
    and reset: "resetPassword env2
                  \<lparr>rp_resetToken = toHex (randomBytes env1 20), rp_password = p,
                   rp_confirmPassword = p\<rparr> ctx1 = (r2, ctx2)"
  shows "r1 = Inr (Message ''Thank you!'')
     \<and> find (matchUser (ByEmail email)) (users (db ctx1))
         = Some (usr\<lparr>u_resetToken := Some (toHex (randomBytes env1 20)),
                     u_resetTokenExpiry := Some (now env1 + 3600000)\<rparr>)
     \<and> r2 = Inr (usr\<lparr>u_password := bcrypt_hash env2 p 10, u_resetToken := None,
                      u_resetTokenExpiry := None\<rparr>)
     \<and> find (matchUser (ByEmail email)) (users (db ctx2))
         = Some (usr\<lparr>u_password := bcrypt_hash env2 p 10, u_resetToken := None,
                     u_resetTokenExpiry := None\<rparr>)"
proof -
  let ?tok = "toHex (randomBytes env1 20)"
  let ?P = "matchUser (ByEmail email)"
  let ?i1 = "\<lparr>set_password = None, set_permissions = None, set_resetToken = Some (Some ?tok),
              set_resetTokenExpiry = Some (Some (now env1 + 3600000))\<rparr>"
  let ?i2 = "\<lparr>set_password = Some (bcrypt_hash env2 p 10), set_permissions = None,
              set_resetToken = Some None, set_resetTokenExpiry = Some None\<rparr>"
  let ?Q = "tokenMatches ?tok (now env2 - 3600000)"
  let ?us1 = "updateFirst ?P (applyUserUpdate ?i1) (users (db ctx))"
  let ?usr1 = "usr\<lparr>u_resetToken := Some ?tok, u_resetTokenExpiry := Some (now env1 + 3600000)\<rparr>"
  let ?usr2 = "usr\<lparr>u_password := bcrypt_hash env2 p 10, u_resetToken := None,
                  u_resetTokenExpiry := None\<rparr>"
  have email: "u_email usr = email"
    using existing by (auto simp: find_Some_iff matchUser_def)
  have a1: "applyUserUpdate ?i1 usr = ?usr1"
    by (simp add: applyUserUpdate_def)
  have a2: "applyUserUpdate ?i2 ?usr1 = ?usr2"
    by (simp add: applyUserUpdate_def)
  have r1: "r1 = Inr (Message ''Thank you!'')" and us1: "users (db ctx1) = ?us1"
    using request existing
    by (auto simp: requestReset_def db_query_user_def db_mutation_updateUser_def logCall_def Let_def)
  have m: "?P usr"
    using email by (simp add: matchUser_def)
  have "find ?P ?us1 = Some (applyUserUpdate ?i1 usr)"
    using existing m by (intro find_updateFirst_same) (simp_all add: matchUser_applyUserUpdate)
  then have found1: "find ?P ?us1 = Some ?usr1"
    by (simp only: a1)
  have q: "?Q ?usr1"
    using soon by (simp add: tokenMatches_def)
  have others: "\<forall>y \<in> set (users (db ctx)). \<not> ?P y \<longrightarrow> \<not> ?Q y"
    using fresh by (auto simp: matchUser_def tokenMatches_def)
  have "find ?Q ?us1 = Some (applyUserUpdate ?i1 usr)"
    using existing q others by (intro find_updateFirst_other) (simp_all only: a1)
  then have "find ?Q ?us1 = Some ?usr1"
    by (simp only: a1)
  then obtain rest where matching: "filter ?Q (users (db ctx1)) = ?usr1 # rest"
    using find_Some_filter us1 by metis
  have found1': "find (matchUser (ByEmail (u_email ?usr1))) (users (db ctx1)) = Some ?usr1"
    using found1 us1 email by simp
  have r2: "r2 = Inr ?usr2" and us2: "users (db ctx2) = updateFirst ?P (applyUserUpdate ?i2) ?us1"
    using reset matching found1' a2 us1 email
    by (auto simp: resetPassword_def db_query_users_def db_mutation_updateUser_def
        logCall_def Let_def)
  have "?P ?usr1"
    using m by (simp add: matchUser_def)
  with found1 have "find ?P (updateFirst ?P (applyUserUpdate ?i2) ?us1)
      = Some (applyUserUpdate ?i2 ?usr1)"
    by (intro find_updateFirst_same) (simp_all add: matchUser_applyUserUpdate)
  then have found2: "find ?P (updateFirst ?P (applyUserUpdate ?i2) ?us1) = Some ?usr2"
    by (simp only: a2)
  show ?thesis
    using r1 r2 found1 us1 found2 us2 by simp
qed

theorem requestReset_then_resetPassword_witness:
  "find (matchUser (ByEmail ''admin@shop.test'')) (users (db (exampleCtx None))) = Some exampleAdmin
   \<and> Some (toHex (randomBytes exampleEnv 20))
       \<notin> set (map u_resetToken (users (db (exampleCtx None))))
   \<and> now (exampleEnv\<lparr>now := 10000500\<rparr>) \<le> now exampleEnv + 7200000
   \<and> toHex (randomBytes exampleEnv 20) = ''abababababababababababababababababababab''
   \<and> fst (requestReset exampleEnv \<lparr>a_email = ''admin@shop.test''\<rparr> (exampleCtx None))
       = Inr (Message ''Thank you!'')
   \<and> fst (resetPassword (exampleEnv\<lparr>now := 10000500\<rparr>)
            \<lparr>rp_resetToken = ''abababababababababababababababababababab'',
             rp_password = ''fresh'', rp_confirmPassword = ''fresh''\<rparr>
            (snd (requestReset exampleEnv \<lparr>a_email = ''admin@shop.test''\<rparr> (exampleCtx None))))
       = Inr (exampleAdmin\<lparr>u_password := ''hash:fresh'', u_resetToken := None,
                           u_resetTokenExpiry := None\<rparr>)"
proof -
  let ?later = "exampleEnv\<lparr>now := 10000500\<rparr>"
  let ?req = "requestReset exampleEnv \<lparr>a_email = ''admin@shop.test''\<rparr> (exampleCtx None)"
  let ?tok = "toHex (randomBytes exampleEnv 20)"
  let ?res = "resetPassword ?later
                \<lparr>rp_resetToken = ?tok, rp_password = ''fresh'', rp_confirmPassword = ''fresh''\<rparr>
                (snd ?req)"
  have tok: "?tok = ''abababababababababababababababababababab''"
    by code_simp
  have existing: "find (matchUser (ByEmail ''admin@shop.test'')) (users (db (exampleCtx None)))
      = Some exampleAdmin"
    by (simp add: example_defs matchUser_def)
  have fresh: "\<forall>u \<in> set (users (db (exampleCtx None))).
         u_email u \<noteq> ''admin@shop.test'' \<longrightarrow> u_resetToken u \<noteq> Some ?tok"
    unfolding tok by (simp add: example_defs)
  have soon: "now ?later \<le> now exampleEnv + 7200000"
    by (simp add: example_defs)
  have hash: "bcrypt_hash ?later ''fresh'' 10 = ''hash:fresh''"
    by (simp add: example_defs)
  have request: "?req = (fst ?req, snd ?req)" and reset: "?res = (fst ?res, snd ?res)"
    by simp_all
  note run = requestReset_then_resetPassword [OF existing fresh soon request reset]
  from run have "fst ?req = Inr (Message ''Thank you!'')"
    by blast
  moreover from run hash
  have "fst ?res = Inr (exampleAdmin\<lparr>u_password := ''hash:fresh'', u_resetToken := None,
                           u_resetTokenExpiry := None\<rparr>)"
    by simp
  moreover have "Some ?tok \<notin> set (map u_resetToken (users (db (exampleCtx None))))"
    unfolding tok by (simp add: example_defs)
  ultimately show ?thesis
    using existing soon tok by simp
qed

text \<open>
  C5. For a signed-in user and the id of an Item, with no CartItem for the pair yet,
  two calls of \<^verbatim>\<open>addToCart\<close> in a row leave one CartItem for the pair, with quantity
  2: the first call creates it with the default quantity, the second finds it and
  issues \<^verbatim>\<open>updateCartItem\<close> with its quantity plus 1, creating nothing. The cart table
  has grown by this one row. The user and the Item are rows of the store, and the id
  the store gives the new CartItem is not the id of another CartItem.
\<close>

theorem addToCart_twice:
  assumes caller: "request_userId ctx = Some uid" "uid \<noteq> []"
    and user: "uid \<in> set (map u_id (users (db ctx)))"
    and item: "find (hasId (JStr (a_id args))) (items (db ctx)) = Some it"
    and absent: "filter (inCart uid (a_id args)) (cartItems (db ctx)) = []"
    and fresh: "newId env1 \<notin> set (map c_id (cartItems (db ctx)))"
    and once: "addToCart env1 args ctx = (r1, ctx1)"
    and twice: "addToCart env2 args ctx1 = (r2, ctx2)"
  shows "r1 = Inr \<lparr>c_id = newId env1, c_quantity = 1, c_user = uid, c_item = a_id args\<rparr>
     \<and> r2 = Inr \<lparr>c_id = newId env1, c_quantity = 2, c_user = uid, c_item = a_id args\<rparr>
     \<and> filter (inCart uid (a_id args)) (cartItems (db ctx2))
         = [\<lparr>c_id = newId env1, c_quantity = 2, c_user = uid, c_item = a_id args\<rparr>]
     \<and> cartItems (db ctx2) = cartItems (db ctx)
         @ [\<lparr>c_id = newId env1, c_quantity = 2, c_user = uid, c_item = a_id args\<rparr>]
     \<and> calls (db ctx2) = calls (db ctx1)
         @ [Query_cartItems uid (a_id args), Mutation_updateCartItem (newId env1) 2]"
proof -
  let ?c1 = "\<lparr>c_id = newId env1, c_quantity = 1, c_user = uid, c_item = a_id args\<rparr>"
  let ?c2 = "\<lparr>c_id = newId env1, c_quantity = 2, c_user = uid, c_item = a_id args\<rparr>"
  let ?P = "\<lambda>c. c_id c = newId env1"
  have r1: "r1 = Inr ?c1" and cart1: "cartItems (db ctx1) = cartItems (db ctx) @ [?c1]"
    and caller1: "request_userId ctx1 = Some uid"
    using once caller user item absent
    by (auto simp: addToCart_def db_query_cartItems_def db_mutation_createCartItem_def
        logCall_def defaultQuantity_def Let_def)
  have nothere: "\<forall>y \<in> set (cartItems (db ctx)). \<not> ?P y"
    using fresh by (auto simp: image_iff)
  have existing: "filter (inCart uid (a_id args)) (cartItems (db ctx1)) = [?c1]"
    using absent by (simp add: cart1 inCart_def)
  have found: "find ?P (cartItems (db ctx1)) = Some ?c1"
    using find_snoc [of "cartItems (db ctx)" ?P ?c1] nothere by (simp add: cart1)
  have upd: "updateFirst ?P (\<lambda>c. c\<lparr>c_quantity := 2\<rparr>) (cartItems (db ctx1)) = cartItems (db ctx) @ [?c2]"
    using updateFirst_snoc [of "cartItems (db ctx)" ?P ?c1 "\<lambda>c. c\<lparr>c_quantity := 2\<rparr>"] nothere
    by (simp add: cart1)
  have r2: "r2 = Inr ?c2" and cart2: "cartItems (db ctx2) = cartItems (db ctx) @ [?c2]"
    and calls2: "calls (db ctx2) = calls (db ctx1)
         @ [Query_cartItems uid (a_id args), Mutation_updateCartItem (newId env1) 2]"
    using twice caller1 caller(2) existing found upd
    by (auto simp: addToCart_def db_query_cartItems_def db_mutation_updateCartItem_def
        logCall_def Let_def)
  have "filter (inCart uid (a_id args)) (cartItems (db ctx2)) = [?c2]"
    using absent by (simp add: cart2 inCart_def)
  then show ?thesis
    using r1 r2 cart2 calls2 by simp
qed

theorem addToCart_twice_witness:
  "request_userId (exampleCtx (Some ''u1'')) = Some ''u1'' \<and> ''u1'' \<noteq> []
   \<and> ''u1'' \<in> set (map u_id (users (db (exampleCtx (Some ''u1'')))))
   \<and> find (hasId (JStr (a_id \<lparr>a_id = ''i1''\<rparr>))) (items (db (exampleCtx (Some ''u1''))))
       = Some [(''id'', JStr ''i1''), (''title'', JStr ''Shoes''), (''price'', JNum 5000)]
   \<and> filter (inCart ''u1'' (a_id \<lparr>a_id = ''i1''\<rparr>)) (cartItems (db (exampleCtx (Some ''u1'')))) = []
   \<and> newId exampleEnv \<notin> set (map c_id (cartItems (db (exampleCtx (Some ''u1'')))))
   \<and> fst (addToCart (exampleEnv\<lparr>newId := ''n2''\<rparr>) \<lparr>a_id = ''i1''\<rparr>
            (snd (addToCart exampleEnv \<lparr>a_id = ''i1''\<rparr> (exampleCtx (Some ''u1'')))))
       = Inr \<lparr>c_id = ''n1'', c_quantity = 2, c_user = ''u1'', c_item = ''i1''\<rparr>
   \<and> cartItems (db (snd (addToCart (exampleEnv\<lparr>newId := ''n2''\<rparr>) \<lparr>a_id = ''i1''\<rparr>
            (snd (addToCart exampleEnv \<lparr>a_id = ''i1''\<rparr> (exampleCtx (Some ''u1'')))))))
       = [\<lparr>c_id = ''c1'', c_quantity = 1, c_user = ''u3'', c_item = ''i1''\<rparr>,
          \<lparr>c_id = ''n1'', c_quantity = 2, c_user = ''u1'', c_item = ''i1''\<rparr>]"
proof -
  let ?ctx = "exampleCtx (Some ''u1'')"
  let ?args = "\<lparr>a_id = ''i1''\<rparr>"
  let ?once = "addToCart exampleEnv ?args ?ctx"
  let ?twice = "addToCart (exampleEnv\<lparr>newId := ''n2''\<rparr>) ?args (snd ?once)"
  have caller: "request_userId ?ctx = Some ''u1''" "''u1'' \<noteq> []"
    by (simp_all add: example_defs)
  have user: "''u1'' \<in> set (map u_id (users (db ?ctx)))"
    by (simp add: example_defs)
  have item: "find (hasId (JStr (a_id ?args))) (items (db ?ctx))
       = Some [(''id'', JStr ''i1''), (''title'', JStr ''Shoes''), (''price'', JNum 5000)]"
    by (simp add: example_defs hasId_def)
  have absent: "filter (inCart ''u1'' (a_id ?args)) (cartItems (db ?ctx)) = []"
    by (simp add: example_defs inCart_def)
  have fresh: "newId exampleEnv \<notin> set (map c_id (cartItems (db ?ctx)))"
    by (simp add: example_defs)
  have cart: "cartItems (db ?ctx) = [\<lparr>c_id = ''c1'', c_quantity = 1, c_user = ''u3'', c_item = ''i1''\<rparr>]"
    "newId exampleEnv = ''n1''"
    by (simp_all add: example_defs)
  have once: "?once = (fst ?once, snd ?once)" and twice: "?twice = (fst ?twice, snd ?twice)"
    by simp_all
  note run = addToCart_twice [OF caller user item absent fresh once twice]
  from run cart
  have "fst ?twice = Inr \<lparr>c_id = ''n1'', c_quantity = 2, c_user = ''u1'', c_item = ''i1''\<rparr>"
    "cartItems (db (snd ?twice))
       = [\<lparr>c_id = ''c1'', c_quantity = 1, c_user = ''u3'', c_item = ''i1''\<rparr>,
          \<lparr>c_id = ''n1'', c_quantity = 2, c_user = ''u1'', c_item = ''i1''\<rparr>]"
    by simp_all
  then show ?thesis
    using caller user item absent fresh by simp
qed

text \<open>
  C6. \<^verbatim>\<open>removeFromCart\<close> fails with "No Cart Item Found!" when no CartItem has the id;
  it fails with "Cheating :)" and leaves the cart table as it was when the CartItem
  belongs to a user other than the caller; and after the lookup it issues
  \<^verbatim>\<open>deleteCartItem\<close> exactly when the caller owns the CartItem.
\<close>

theorem removeFromCart_guards:
  "(find (\<lambda>c. c_id c = a_id args) (cartItems (db ctx)) = None \<longrightarrow>
      fst (removeFromCart args ctx) = Inl (Error ''No Cart Item Found!''))
   \<and> (find (\<lambda>c. c_id c = a_id args) (cartItems (db ctx)) = Some c
        \<and> request_userId ctx \<noteq> Some (c_user c) \<longrightarrow>
      fst (removeFromCart args ctx) = Inl (Error ''Cheating :)'')
      \<and> cartItems (db (snd (removeFromCart args ctx))) = cartItems (db ctx))
   \<and> calls (db (snd (removeFromCart args ctx))) =
       calls (db ctx) @ Query_cartItem (a_id args) #
         (if ownsCartItem ctx (a_id args) then [Mutation_deleteCartItem (a_id args)] else [])"
  by (simp add: removeFromCart_def ownsCartItem_def db_query_cartItem_def
      db_mutation_deleteCartItem_def logCall_def Let_def split: option.splits)

theorem removeFromCart_guards_witness:
  "find (\<lambda>c. c_id c = a_id \<lparr>a_id = ''zz''\<rparr>) (cartItems (db (exampleCtx (Some ''u3'')))) = None
   \<and> fst (removeFromCart \<lparr>a_id = ''zz''\<rparr> (exampleCtx (Some ''u3''))) = Inl (Error ''No Cart Item Found!'')
   \<and> find (\<lambda>c. c_id c = a_id \<lparr>a_id = ''c1''\<rparr>) (cartItems (db (exampleCtx (Some ''u1''))))
       = Some \<lparr>c_id = ''c1'', c_quantity = 1, c_user = ''u3'', c_item = ''i1''\<rparr>
   \<and> fst (removeFromCart \<lparr>a_id = ''c1''\<rparr> (exampleCtx (Some ''u1''))) = Inl (Error ''Cheating :)'')
   \<and> cartItems (db (snd (removeFromCart \<lparr>a_id = ''c1''\<rparr> (exampleCtx (Some ''u1'')))))
       = [\<lparr>c_id = ''c1'', c_quantity = 1, c_user = ''u3'', c_item = ''i1''\<rparr>]
   \<and> ownsCartItem (exampleCtx (Some ''u3'')) ''c1''
   \<and> calls (db (snd (removeFromCart \<lparr>a_id = ''c1''\<rparr> (exampleCtx (Some ''u3'')))))
       = [Query_cartItem ''c1'', Mutation_deleteCartItem ''c1'']"
proof -
  have a: "find (\<lambda>c. c_id c = a_id \<lparr>a_id = ''zz''\<rparr>) (cartItems (db (exampleCtx (Some ''u3'')))) = None"
    by (simp add: example_defs)
  have b: "find (\<lambda>c. c_id c = a_id \<lparr>a_id = ''c1''\<rparr>) (cartItems (db (exampleCtx (Some ''u1''))))
       = Some \<lparr>c_id = ''c1'', c_quantity = 1, c_user = ''u3'', c_item = ''i1''\<rparr>"
    by (simp add: example_defs)
  have c: "ownsCartItem (exampleCtx (Some ''u3'')) ''c1''"
    by (simp add: example_defs ownsCartItem_def)
  have d: "cartItems (db (exampleCtx (Some ''u1'')))
       = [\<lparr>c_id = ''c1'', c_quantity = 1, c_user = ''u3'', c_item = ''i1''\<rparr>]"
    "calls (db (exampleCtx (Some ''u3''))) = []" "request_userId (exampleCtx (Some ''u1'')) = Some ''u1''"
    by (simp_all add: example_defs)
  show ?thesis
    using removeFromCart_guards [of "\<lparr>a_id = ''zz''\<rparr>" "exampleCtx (Some ''u3'')"]
      removeFromCart_guards [of "\<lparr>a_id = ''c1''\<rparr>" "exampleCtx (Some ''u1'')"
        "\<lparr>c_id = ''c1'', c_quantity = 1, c_user = ''u3'', c_item = ''i1''\<rparr>"]
      removeFromCart_guards [of "\<lparr>a_id = ''c1''\<rparr>" "exampleCtx (Some ''u3'')"]
      a b c d
    by simp
qed

text \<open>
  C7. \<^verbatim>\<open>signin\<close> fails with "No such user found for email ..." when no user has the
  email; with a user found and a password that \<^verbatim>\<open>bcrypt.compare\<close> rejects it fails
  with "Invalid Password!" and sets no cookie; with a password that verifies it returns
  that user and sets one httpOnly cookie \<^verbatim>\<open>token\<close> whose payload is the user's id.
\<close>

theorem signin_outcomes:
  "(email \<notin> set (map u_email (users (db ctx))) \<longrightarrow>
      fst (signin env email password ctx) = Inl (Error (''No such user found for email '' @ email))
      \<and> response (snd (signin env email password ctx)) = response ctx)
   \<and> (find (matchUser (ByEmail email)) (users (db ctx)) = Some u
        \<and> \<not> bcrypt_compare env password (u_password u) \<longrightarrow>
      fst (signin env email password ctx) = Inl (Error ''Invalid Password!'')
      \<and> response (snd (signin env email password ctx)) = response ctx)
   \<and> (find (matchUser (ByEmail email)) (users (db ctx)) = Some u
        \<and> bcrypt_compare env password (u_password u) \<longrightarrow>
      fst (signin env email password ctx) = Inr u
      \<and> (\<exists>tok age. response (snd (signin env email password ctx))
                      = response ctx @ [SetCookie ''token'' tok True age]
                    \<and> payload_userId tok = u_id u))"
proof -
  have none: "find (matchUser (ByEmail email)) (users (db ctx)) = None"
    if "email \<notin> set (map u_email (users (db ctx)))"
    using that by (auto simp: find_None_iff matchUser_def)
  show ?thesis
    using none
    by (auto simp: signin_def db_query_user_def sessionCookie_def jwt_sign_def Let_def)
qed

theorem signin_outcomes_witness:
  "''nobody@shop.test'' \<notin> set (map u_email (users (db (exampleCtx None))))
   \<and> fst (signin exampleEnv ''nobody@shop.test'' ''buy'' (exampleCtx None))
       = Inl (Error ''No such user found for email nobody@shop.test'')
   \<and> find (matchUser (ByEmail ''buyer@shop.test'')) (users (db (exampleCtx None)))
       = Some (exampleBuyer)
   \<and> \<not> bcrypt_compare exampleEnv ''guess'' (u_password (exampleBuyer))
   \<and> fst (signin exampleEnv ''buyer@shop.test'' ''guess'' (exampleCtx None))
       = Inl (Error ''Invalid Password!'')
   \<and> response (snd (signin exampleEnv ''buyer@shop.test'' ''guess'' (exampleCtx None))) = []
   \<and> bcrypt_compare exampleEnv ''buy'' (u_password (exampleBuyer))
   \<and> fst (signin exampleEnv ''buyer@shop.test'' ''buy'' (exampleCtx None)) = Inr (exampleBuyer)
   \<and> (\<exists>tok age. response (snd (signin exampleEnv ''buyer@shop.test'' ''buy'' (exampleCtx None)))
                   = [SetCookie ''token'' tok True age] \<and> payload_userId tok = ''u3'')"
proof -
  have a: "''nobody@shop.test'' \<notin> set (map u_email (users (db (exampleCtx None))))"
    by (simp add: example_defs)
  have b: "find (matchUser (ByEmail ''buyer@shop.test'')) (users (db (exampleCtx None)))
       = Some (exampleBuyer)"
    by (simp add: example_defs matchUser_def)
  have c: "\<not> bcrypt_compare exampleEnv ''guess'' (u_password (exampleBuyer))"
    "bcrypt_compare exampleEnv ''buy'' (u_password (exampleBuyer))"
    "u_id (exampleBuyer) = ''u3''" "response (exampleCtx None) = []"
    by (simp_all add: example_defs)
  show ?thesis
    using signin_outcomes [where email = "''nobody@shop.test''" and ctx = "exampleCtx None"
        and env = exampleEnv and password = "''buy''"]
      signin_outcomes [where email = "''buyer@shop.test''" and ctx = "exampleCtx None"
        and u = "exampleBuyer" and env = exampleEnv and password = "''guess''"]
      signin_outcomes [where email = "''buyer@shop.test''" and ctx = "exampleCtx None"
        and u = "exampleBuyer" and env = exampleEnv and password = "''buy''"]
      a b c
    by simp
qed

text \<open>
  C8. \<^verbatim>\<open>updateItem\<close> issues one call, \<^verbatim>\<open>updateItem\<close> of the database with
  \<^verbatim>\<open>where.id = args.id\<close> and as data the arguments without their \<^verbatim>\<open>id\<close> property;
  result and store are the same whoever the caller is, also with no caller; and when
  an Item has that id, the Item returned is the stored row after the update: the old
  row with every argument other than \<^verbatim>\<open>id\<close> written over it.
\<close>

theorem updateItem_sends_args_without_id:
  "calls (db (snd (updateItem args ctx))) =
     calls (db ctx) @ [Mutation_updateItem (map_of args ''id'') (AList.delete ''id'' args)]
   \<and> map_of (AList.delete ''id'' args) = (map_of args)(''id'' := None)
   \<and> fst (updateItem args (ctx\<lparr>request_userId := who\<rparr>)) = fst (updateItem args ctx)
   \<and> db (snd (updateItem args (ctx\<lparr>request_userId := who\<rparr>))) = db (snd (updateItem args ctx))
   \<and> (map_of args ''id'' = Some v \<and> find (hasId v) (items (db ctx)) = Some row \<longrightarrow>
        fst (updateItem args ctx) = Inr (AList.merge row (AList.delete ''id'' args))
        \<and> find (hasId v) (items (db (snd (updateItem args ctx))))
            = Some (AList.merge row (AList.delete ''id'' args))
        \<and> (\<forall>k. map_of (AList.merge row (AList.delete ''id'' args)) k
              = (if k \<noteq> ''id'' \<and> map_of args k \<noteq> None then map_of args k else map_of row k)))"
proof -
  have sent: "calls (db (snd (updateItem args ctx))) =
     calls (db ctx) @ [Mutation_updateItem (map_of args ''id'') (AList.delete ''id'' args)]"
    by (simp add: updateItem_def db_mutation_updateItem_def logCall_def Let_def
        split: option.splits prod.splits)
  have payload: "map_of (AList.delete ''id'' args) = (map_of args)(''id'' := None)"
    by (rule AList.delete_conv')
  have anyone: "fst (updateItem args (ctx\<lparr>request_userId := who\<rparr>)) = fst (updateItem args ctx)"
    "db (snd (updateItem args (ctx\<lparr>request_userId := who\<rparr>))) = db (snd (updateItem args ctx))"
    by (simp_all add: updateItem_def Let_def split: prod.splits)
  have applied: "fst (updateItem args ctx) = Inr (AList.merge row (AList.delete ''id'' args))
        \<and> find (hasId v) (items (db (snd (updateItem args ctx))))
            = Some (AList.merge row (AList.delete ''id'' args))
        \<and> (\<forall>k. map_of (AList.merge row (AList.delete ''id'' args)) k
              = (if k \<noteq> ''id'' \<and> map_of args k \<noteq> None then map_of args k else map_of row k))"
    if w: "map_of args ''id'' = Some v" and r: "find (hasId v) (items (db ctx)) = Some row"
  proof -
    have "hasId v row" using r by (auto simp: find_Some_iff)
    then have keep: "hasId v (AList.merge row (AList.delete ''id'' args))"
      by (rule hasId_merge)
    have 1: "fst (updateItem args ctx) = Inr (AList.merge row (AList.delete ''id'' args))"
      using w r by (simp add: updateItem_def db_mutation_updateItem_def Let_def)
    have 2: "items (db (snd (updateItem args ctx)))
        = updateFirst (hasId v) (\<lambda>r. AList.merge r (AList.delete ''id'' args)) (items (db ctx))"
      using w r by (simp add: updateItem_def db_mutation_updateItem_def logCall_def Let_def)
    have 3: "map_of (AList.merge row (AList.delete ''id'' args)) k
              = (if k \<noteq> ''id'' \<and> map_of args k \<noteq> None then map_of args k else map_of row k)" for k
      by (auto simp: AList.merge_conv' AList.delete_conv' map_add_def split: option.splits)
    show ?thesis
      using 1 2 3
        find_updateFirst_same [where f = "\<lambda>r. AList.merge r (AList.delete ''id'' args)", OF r keep]
      by simp
  qed
  show ?thesis using sent payload anyone applied by blast
qed

theorem updateItem_sends_args_without_id_witness:
  "map_of [(''id'', JStr ''i1''), (''price'', JNum 4200)] ''id'' = Some (JStr ''i1'')
   \<and> find (hasId (JStr ''i1'')) (items (db (exampleCtx None)))
       = Some [(''id'', JStr ''i1''), (''title'', JStr ''Shoes''), (''price'', JNum 5000)]
   \<and> fst (updateItem [(''id'', JStr ''i1''), (''price'', JNum 4200)] (exampleCtx None))
       = Inr [(''id'', JStr ''i1''), (''title'', JStr ''Shoes''), (''price'', JNum 4200)]
   \<and> calls (db (snd (updateItem [(''id'', JStr ''i1''), (''price'', JNum 4200)] (exampleCtx None))))
       = [Mutation_updateItem (Some (JStr ''i1'')) [(''price'', JNum 4200)]]"
proof -
  have a: "map_of [(''id'', JStr ''i1''), (''price'', JNum 4200)] ''id'' = Some (JStr ''i1'')"
    by simp
  have b: "find (hasId (JStr ''i1'')) (items (db (exampleCtx None)))
       = Some [(''id'', JStr ''i1''), (''title'', JStr ''Shoes''), (''price'', JNum 5000)]"
    by (simp add: example_defs hasId_def)
  have c: "calls (db (exampleCtx None)) = []"
    by (simp add: example_defs)
  have m: "AList.merge [(''id'', JStr ''i1''), (''title'', JStr ''Shoes''), (''price'', JNum 5000)]
             (AList.delete ''id'' [(''id'', JStr ''i1''), (''price'', JNum 4200)])
           = [(''id'', JStr ''i1''), (''title'', JStr ''Shoes''), (''price'', JNum 4200)]"
    by (simp add: AList.merge_def AList.delete_eq AList.update.simps)
  show ?thesis
    using updateItem_sends_args_without_id
      [of "[(''id'', JStr ''i1''), (''price'', JNum 4200)]" "exampleCtx None" None "JStr ''i1''"
          "[(''id'', JStr ''i1''), (''title'', JStr ''Shoes''), (''price'', JNum 5000)]"]
      a b c m
    by (simp add: AList.delete_eq)
qed

text \<open>
  C9. \<^verbatim>\<open>deleteItem\<close> always issues the lookup and then the delete, whatever the
  lookup returned; its result is the result of the delete call. When the lookup finds
  nothing, the failure is the one the delete call raises.
\<close>

theorem deleteItem_ignores_lookup:
  "calls (db (snd (deleteItem args ctx))) =
     calls (db ctx) @ [Query_item (JStr (a_id args)), Mutation_deleteItem (JStr (a_id args))]
   \<and> fst (deleteItem args ctx) =
       fst (db_mutation_deleteItem (JStr (a_id args))
             (snd (db_query_item (JStr (a_id args)) (db ctx))))
   \<and> (fst (db_query_item (JStr (a_id args)) (db ctx)) = None \<longrightarrow>
        fst (deleteItem args ctx) = Inl NoNodeFound
        \<and> items (db (snd (deleteItem args ctx))) = items (db ctx))"
  by (simp add: deleteItem_def db_query_item_def db_mutation_deleteItem_def logCall_def Let_def
      split: option.splits prod.splits)

theorem deleteItem_ignores_lookup_witness:
  "fst (db_query_item (JStr (a_id \<lparr>a_id = ''gone''\<rparr>)) (db (exampleCtx None))) = None
   \<and> fst (deleteItem \<lparr>a_id = ''gone''\<rparr> (exampleCtx None)) = Inl NoNodeFound
   \<and> calls (db (snd (deleteItem \<lparr>a_id = ''gone''\<rparr> (exampleCtx None))))
       = [Query_item (JStr ''gone''), Mutation_deleteItem (JStr ''gone'')]"
proof -
  have a: "fst (db_query_item (JStr (a_id \<lparr>a_id = ''gone''\<rparr>)) (db (exampleCtx None))) = None"
    by (simp add: example_defs db_query_item_def hasId_def)
  have c: "calls (db (exampleCtx None)) = []"
    by (simp add: example_defs)
  note t = deleteItem_ignores_lookup [of "\<lparr>a_id = ''gone''\<rparr>" "exampleCtx None"]
  from t a have r: "fst (deleteItem \<lparr>a_id = ''gone''\<rparr> (exampleCtx None)) = Inl NoNodeFound"
    by blast
  from t c have "calls (db (snd (deleteItem \<lparr>a_id = ''gone''\<rparr> (exampleCtx None))))
       = [Query_item (JStr ''gone''), Mutation_deleteItem (JStr ''gone'')]"
    by simp
  with a r show ?thesis by blast
qed

text \<open>
  C10. With \<^verbatim>\<open>ctx.request.userId\<close> unset and a CartItem with the given id in the
  store, \<^verbatim>\<open>removeFromCart\<close> fails with the ownership error "Cheating :)", issues
  only the lookup, and leaves the cart table as it was.
\<close>

theorem removeFromCart_without_identity:
  assumes "request_userId ctx = None"
    and "find (\<lambda>c. c_id c = a_id args) (cartItems (db ctx)) = Some c"
  shows "fst (removeFromCart args ctx) = Inl (Error ''Cheating :)'')
     \<and> calls (db (snd (removeFromCart args ctx))) = calls (db ctx) @ [Query_cartItem (a_id args)]
     \<and> cartItems (db (snd (removeFromCart args ctx))) = cartItems (db ctx)"
  using assms
  by (simp add: removeFromCart_def db_query_cartItem_def logCall_def)

theorem removeFromCart_without_identity_witness:
  "request_userId (exampleCtx None) = None
   \<and> find (\<lambda>c. c_id c = a_id \<lparr>a_id = ''c1''\<rparr>) (cartItems (db (exampleCtx None)))
       = Some \<lparr>c_id = ''c1'', c_quantity = 1, c_user = ''u3'', c_item = ''i1''\<rparr>
   \<and> fst (removeFromCart \<lparr>a_id = ''c1''\<rparr> (exampleCtx None)) = Inl (Error ''Cheating :)'')
   \<and> calls (db (snd (removeFromCart \<lparr>a_id = ''c1''\<rparr> (exampleCtx None)))) = [Query_cartItem ''c1'']"
proof -
  have a: "request_userId (exampleCtx None) = None"
    by (simp add: example_defs)
  have b: "find (\<lambda>c. c_id c = a_id \<lparr>a_id = ''c1''\<rparr>) (cartItems (db (exampleCtx None)))
       = Some \<lparr>c_id = ''c1'', c_quantity = 1, c_user = ''u3'', c_item = ''i1''\<rparr>"
    by (simp add: example_defs)
  have c: "calls (db (exampleCtx None)) = []"
    by (simp add: example_defs)
  show ?thesis
    using removeFromCart_without_identity [OF a b] a b c by simp
qed

end
